theory Spec2Isabelle
  imports Main "HOL-Library.AList"
begin

section \<open>Errors and external responses\<close>

text \<open>
  JavaScript exceptions and promise rejections are values. \<open>Error m\<close> is
  \<^verbatim>\<open>new Error(m)\<close>, \<open>TypeError m\<close> the built-in of that name, and \<open>Str s\<close> a thrown or
  rejected string (\<^verbatim>\<open>throw `Failed to install ...`\<close>, \<^verbatim>\<open>reject(`Failed to ...`)\<close>).
  \<open>RangeError m\<close> is what the engine throws when the call stack is exhausted.
  \<open>err_text\<close> is the template-literal conversion \<^verbatim>\<open>`${err}`\<close>.
\<close>

datatype error = Error string | TypeError string | RangeError string | Str string

fun err_text :: "error \<Rightarrow> string" where
  "err_text (Error m) = ''Error: '' @ m"
| "err_text (TypeError m) = ''TypeError: '' @ m"
| "err_text (RangeError m) = ''RangeError: '' @ m"
| "err_text (Str s) = s"

text \<open>
  The part of a package-index response that the code reads: \<^verbatim>\<open>response.version\<close>
  (tested with \<^verbatim>\<open>typeof ... === 'string'\<close>) and \<^verbatim>\<open>Object.keys(response.versions)\<close>
  in the order \<^verbatim>\<open>Object.keys\<close> yields them (\<open>None\<close> when the field is missing, where
  \<^verbatim>\<open>Object.keys(undefined)\<close> throws a TypeError).
\<close>

datatype js_value = JString string | JBool bool | JUndefined

record response =
  version :: js_value
  versions :: "string list option"

text \<open>\<^verbatim>\<open>promise.catch((err) => { throw new Error(`<prefix>${err}`) })\<close>\<close>

definition catch_rethrow :: "string \<Rightarrow> error + 'a \<Rightarrow> error + 'a" where
  "catch_rethrow prefix m =
     (case m of Inl err \<Rightarrow> Inl (Error (prefix @ err_text err)) | Inr x \<Rightarrow> Inr x)"

definition object_keys :: "string list option \<Rightarrow> error + string list" where
  "object_keys vs =
     (case vs of
        None \<Rightarrow> Inl (TypeError ''Cannot convert undefined or null to object'')
      | Some ks \<Rightarrow> Inr ks)"

section \<open>Version listing\<close>

definition maxPyrightVersionCount :: nat where
  "maxPyrightVersionCount = 50"

text \<open>\<^verbatim>\<open>verion.includes('-')\<close>\<close>

definition includes_hyphen :: "string \<Rightarrow> bool" where
  "includes_hyphen verion = (CHR ''-'' \<in> set verion)"

text \<open>Server, \<^verbatim>\<open>getPyrightVersions\<close>: filter, reverse, slice.\<close>

definition getPyrightVersions :: "error + response \<Rightarrow> error + string list" where
  "getPyrightVersions packageJson =
     catch_rethrow ''Failed to get versions of pyright: ''
       (case packageJson of
          Inl err \<Rightarrow> Inl err
        | Inr response \<Rightarrow>
            (case object_keys (versions response) of
               Inl err \<Rightarrow> Inl err
             | Inr versions0 \<Rightarrow>
                 (let versions1 = filter (\<lambda>verion. \<not> includes_hyphen verion) versions0;
                      versions2 = rev versions1;
                      versions3 = take maxPyrightVersionCount versions2
                  in Inr versions3)))"

text \<open>
  Client, \<^verbatim>\<open>src/client/sessionManager.ts\<close>: the release versions replace the
  listing only when there is one; then reverse and slice.
\<close>

definition getPyrightVersions_client :: "error + response \<Rightarrow> error + string list" where
  "getPyrightVersions_client packageJson =
     catch_rethrow ''Failed to get versions of pyright: ''
       (case packageJson of
          Inl err \<Rightarrow> Inl err
        | Inr response \<Rightarrow>
            (case object_keys (versions response) of
               Inl err \<Rightarrow> Inl err
             | Inr versions0 \<Rightarrow>
                 (let releaseVersions = filter (\<lambda>verion. \<not> includes_hyphen verion) versions0;
                      versions1 = (if length releaseVersions \<noteq> 0 then releaseVersions else versions0);
                      versions2 = rev versions1;
                      versions3 = take maxPyrightVersionCount versions2
                  in Inr versions3)))"

text \<open>Client, second copy of the module (no slice).\<close>

definition getPyrightVersions_client_unsliced :: "error + response \<Rightarrow> error + string list" where
  "getPyrightVersions_client_unsliced packageJson =
     catch_rethrow ''Failed to get versions of pyright: ''
       (case packageJson of
          Inl err \<Rightarrow> Inl err
        | Inr response \<Rightarrow>
            (case object_keys (versions response) of
               Inl err \<Rightarrow> Inl err
             | Inr versions0 \<Rightarrow>
                 (let releaseVersions = filter (\<lambda>verion. \<not> includes_hyphen verion) versions0;
                      versions1 = (if length releaseVersions \<noteq> 0 then releaseVersions else versions0);
                      versions2 = rev versions1
                  in Inr versions2)))"

text \<open>Server, \<^verbatim>\<open>getPyrightLatestVersion\<close>: the \<^verbatim>\<open>version\<close> field of the index's answer.\<close>

definition getPyrightLatestVersion :: "error + response \<Rightarrow> error + string" where
  "getPyrightLatestVersion packageJson =
     catch_rethrow ''Failed to get latest version of pyright: ''
       (case packageJson of
          Inl err \<Rightarrow> Inl err
        | Inr response \<Rightarrow>
            (case version response of
               JString v \<Rightarrow> Inr v
             | _ \<Rightarrow> Inl (Error ''Received unexpected latest version for pyright'')))"

section \<open>Session options and the synthesized configuration\<close>

record SessionOptions =
  pythonVersion :: "string option"
  pythonPlatform :: "string option"
  pyrightVersion :: "string option"
  typeCheckingMode :: "string option"
  configOverrides :: "(string \<times> bool) list option"
  locale_s :: "string option"

definition defaultPythonVersion :: string where
  "defaultPythonVersion = ''3.12''"

definition defaultPythonPlatform :: string where
  "defaultPythonPlatform = ''All''"

text \<open>
  \<^verbatim>\<open>sessionOptions?.field\<close> of an optional string field, and its truthiness:
  \<^verbatim>\<open>undefined\<close> and the empty string are falsy.
\<close>

definition opt_field :: "(SessionOptions \<Rightarrow> 'a option) \<Rightarrow> SessionOptions option \<Rightarrow> 'a option" where
  "opt_field f sessionOptions = (case sessionOptions of None \<Rightarrow> None | Some so \<Rightarrow> f so)"

fun truthy :: "string option \<Rightarrow> string option" where
  "truthy None = None"
| "truthy (Some s) = (if s = [] then None else Some s)"

text \<open>
  The configuration object, with its keys in insertion order. \<^verbatim>\<open>config[key] = value\<close>
  creates or overwrites the own property \<open>key\<close>, except for the key \<^verbatim>\<open>__proto__\<close>: on
  an object literal that assignment goes to the prototype setter, which ignores a
  value that is neither an object nor null, so no own property appears.
\<close>

type_synonym config = "(string \<times> js_value) list"

definition js_assign :: "string \<Rightarrow> js_value \<Rightarrow> config \<Rightarrow> config" where
  "js_assign key v config =
     (if key = ''__proto__'' then config else AList.update key v config)"

definition merge_overrides :: "(string \<times> bool) list \<Rightarrow> config \<Rightarrow> config" where
  "merge_overrides overrides config =
     fold (\<lambda>key c. case map_of overrides key of
                      Some b \<Rightarrow> js_assign key (JBool b) c
                    | None \<Rightarrow> c)
          (map fst overrides) config"

definition synthesizeConfig :: "SessionOptions option \<Rightarrow> config" where
  "synthesizeConfig sessionOptions =
     (let config0 = [];
          config1 = (case truthy (opt_field pythonVersion sessionOptions) of
                       Some v \<Rightarrow> js_assign ''pythonVersion'' (JString v) config0
                     | None \<Rightarrow> js_assign ''pythonVersion'' (JString defaultPythonVersion) config0);
          config2 = (case truthy (opt_field pythonPlatform sessionOptions) of
                       Some p \<Rightarrow> js_assign ''pythonPlatform'' (JString p) config1
                     | None \<Rightarrow> js_assign ''pythonPlatform'' (JString defaultPythonPlatform) config1);
          config3 = (case truthy (opt_field typeCheckingMode sessionOptions) of
                       Some m \<Rightarrow> js_assign ''typeCheckingMode'' (JString m) config2
                     | None \<Rightarrow> config2);
          config4 = (case opt_field configOverrides sessionOptions of
                       Some overrides \<Rightarrow> merge_overrides overrides config3
                     | None \<Rightarrow> config3)
      in config4)"

section \<open>The process's state\<close>

text \<open>
  What the session manager and the installer read and write: the module's two
  variables (\<^verbatim>\<open>activeSessions\<close>, a Map in insertion order, and \<^verbatim>\<open>lifetimeTimer\<close>),
  the objects the closures of \<^verbatim>\<open>startSession\<close> share, the directories and files on
  disk, and the calls made to the outside, in order.

  Each call of \<^verbatim>\<open>startSession\<close> allocates one cell of \<open>heap\<close>: its \<^verbatim>\<open>session\<close> object,
  the state of the promise it returned and whether its spawn handler has called
  \<^verbatim>\<open>initialize\<close>. The cell's index also names the forked process. The Map holds
  references (indices), so a session object can be written after it left the Map.
  The fields of \<open>Session\<close> are those the session manager uses.
\<close>

type_synonym SessionId = string

datatype LspClient = LspClient nat

record Session =
  session_id :: SessionId
  lastAccessTime :: int
  tempDirPath :: string
  langServerProcess :: "nat option"
  langClient :: "LspClient option"

datatype promise = Pending | Resolved SessionId | Rejected string

datatype init_state = NotCalled | InitPending | InitSettled

record start_call =
  session :: Session
  promise :: promise
  initialize :: init_state

datatype effect =
    PackageJsonCall
  | MkdirCall string
  | InstallCall string string string
  | WriteFileCall string
  | ForkCall string string "string option"
  | InitializeCall nat
  | CancelRequestsCall nat
  | KillCall nat bool
  | RmSyncCall string

record world =
  activeSessions :: "(SessionId \<times> nat) list"
  lifetimeTimer :: bool
  heap :: "start_call list"
  dirs :: "string set"
  files :: "string \<rightharpoonup> config"
  trace :: "effect list"

definition initial_world :: world where
  "initial_world =
     \<lparr>activeSessions = [], lifetimeTimer = False, heap = [], dirs = {},
      files = Map.empty, trace = []\<rparr>"

definition emit :: "effect \<Rightarrow> world \<Rightarrow> world" where
  "emit e w = w\<lparr>trace := trace w @ [e]\<rparr>"

section \<open>The file system and the collaborators\<close>

text \<open>
  Paths are compared as written. \<open>ancestors [] p\<close> lists \<open>p\<close> and the directories
  above it, which \<^verbatim>\<open>mkdir(p, { recursive: true })\<close> creates where missing. Whether an
  outside call fails is an input: \<open>None\<close> is success, \<open>Some err\<close> the error thrown.
  A call that fails is taken to leave the disk as it was. Every call is recorded
  in \<open>trace\<close>, failed or not.
\<close>

definition path_join :: "string \<Rightarrow> string \<Rightarrow> string" where
  "path_join a b = a @ ''/'' @ b"

fun ancestors :: "string \<Rightarrow> string \<Rightarrow> string list" where
  "ancestors acc [] = [acc]"
| "ancestors acc (c # cs) =
     (if c = CHR ''/'' \<and> acc \<noteq> [] then acc # ancestors (acc @ [c]) cs
      else ancestors (acc @ [c]) cs)"

definition under :: "string \<Rightarrow> string \<Rightarrow> bool" where
  "under p q = (q = p \<or> take (Suc (length p)) q = p @ ''/'')"

definition existsSync :: "string \<Rightarrow> world \<Rightarrow> bool" where
  "existsSync p w = (p \<in> dirs w \<or> files w p \<noteq> None)"

definition mkdir_recursive :: "error option \<Rightarrow> string \<Rightarrow> world \<Rightarrow> (error + unit) \<times> world" where
  "mkdir_recursive failure p w =
     (case failure of
        Some err \<Rightarrow> (Inl err, emit (MkdirCall p) w)
      | None \<Rightarrow> (Inr (), emit (MkdirCall p) (w\<lparr>dirs := dirs w \<union> set (ancestors [] p)\<rparr>)))"

text \<open>\<^verbatim>\<open>new PluginManager({ pluginsPath }).install(name, version)\<close>\<close>

definition manager_install ::
  "error option \<Rightarrow> string \<Rightarrow> string \<Rightarrow> string \<Rightarrow> world \<Rightarrow> (error + unit) \<times> world" where
  "manager_install failure pluginsPath name v w =
     (case failure of
        Some err \<Rightarrow> (Inl err, emit (InstallCall pluginsPath name v) w)
      | None \<Rightarrow>
          (Inr (), emit (InstallCall pluginsPath name v)
                     (w\<lparr>dirs := insert (path_join pluginsPath name) (dirs w)\<rparr>)))"

definition writeFileSync :: "error option \<Rightarrow> string \<Rightarrow> config \<Rightarrow> world \<Rightarrow> (error + unit) \<times> world" where
  "writeFileSync failure p content w =
     (case failure of
        Some err \<Rightarrow> (Inl err, emit (WriteFileCall p) w)
      | None \<Rightarrow> (Inr (), emit (WriteFileCall p) (w\<lparr>files := (files w)(p \<mapsto> content)\<rparr>)))"

text \<open>
  \<^verbatim>\<open>fs.rmSync(p, { recursive: true })\<close>: without \<^verbatim>\<open>force\<close> it throws when \<open>p\<close> does
  not exist; otherwise it removes \<open>p\<close> and everything under it, unless it fails.
\<close>

definition rmSync :: "error option \<Rightarrow> string \<Rightarrow> world \<Rightarrow> (error + unit) \<times> world" where
  "rmSync failure p w =
     (case failure of
        Some err \<Rightarrow> (Inl err, emit (RmSyncCall p) w)
      | None \<Rightarrow>
          if \<not> existsSync p w then (Inl (Error ''ENOENT: no such file or directory''), emit (RmSyncCall p) w)
          else (Inr (), emit (RmSyncCall p)
                          (w\<lparr>dirs := {d \<in> dirs w. \<not> under p d},
                             files := (\<lambda>q. if under p q then None else files w q)\<rparr>)))"

section \<open>Installing a version\<close>

text \<open>
  \<^verbatim>\<open>installPyright\<close>, run from its first statement to its return or throw, with the
  outcomes of its awaited calls given in \<open>install_env\<close>. The result pairs what the
  promise settles to with the state left behind, also when it rejects.
\<close>

record InstallPyrightInfo =
  pyrightVersion_i :: string
  localDirectory :: string

record install_env =
  latest :: "error + response"
  mkdir_failure :: "error option"
  install_failure :: "error option"

definition dirName_of :: "string \<Rightarrow> string" where
  "dirName_of v = ''./pyright_local/'' @ v"

definition installPyright ::
  "install_env \<Rightarrow> string option \<Rightarrow> world \<Rightarrow> (error + InstallPyrightInfo) \<times> world" where
  "installPyright env requestedVersion w =
     (case (case truthy requestedVersion of
              Some v \<Rightarrow> (Inr v, w)
            | None \<Rightarrow> (getPyrightLatestVersion (latest env), emit PackageJsonCall w)) of
        (Inl err, w1) \<Rightarrow> (Inl err, w1)
      | (Inr v, w1) \<Rightarrow>
          (let dirName = dirName_of v in
           if existsSync dirName w1
           then (Inr \<lparr>pyrightVersion_i = v, localDirectory = dirName\<rparr>, w1)
           else
             (case mkdir_recursive (mkdir_failure env) (path_join dirName ''node_modules'') w1 of
                (Inl err, w2) \<Rightarrow> (Inl (Str (''Failed to install pyright@'' @ v)), w2)
              | (Inr _, w2) \<Rightarrow>
                  (case manager_install (install_failure env)
                          (path_join dirName ''node_modules'') ''basedpyright'' v w2 of
                     (Inl err, w3) \<Rightarrow> (Inl (Str (''Failed to install pyright@'' @ v)), w3)
                   | (Inr _, w3) \<Rightarrow>
                       (Inr \<lparr>pyrightVersion_i = v, localDirectory = dirName\<rparr>, w3)))))"

text \<open>Installing a list of versions one after the other, each with its own outcomes.\<close>

fun install_all :: "(install_env \<times> string option) list \<Rightarrow> world \<Rightarrow> world" where
  "install_all [] w = w"
| "install_all ((env, req) # rest) w = install_all rest (snd (installPyright env req w))"

section \<open>Writing the configuration file\<close>

text \<open>
  The file holds \<^verbatim>\<open>JSON.stringify(config)\<close>; the model keeps the object that the
  text serialises.
\<close>

definition synthesizePyrightConfigFile ::
  "error option \<Rightarrow> string \<Rightarrow> SessionOptions option \<Rightarrow> world \<Rightarrow> (error + unit) \<times> world" where
  "synthesizePyrightConfigFile failure tempDir sessionOptions w =
     (let configFilePath = path_join tempDir ''pyrightconfig.json'';
          config = synthesizeConfig sessionOptions
      in writeFileSync failure configFilePath config w)"

section \<open>The session manager\<close>

definition maxSessionLifetime :: int where
  "maxSessionLifetime = 1 * 60 * 1000"

text \<open>Reading and writing the session object of a cell.\<close>

definition session_at :: "nat \<Rightarrow> world \<Rightarrow> Session" where
  "session_at r w = session (heap w ! r)"

definition set_session :: "nat \<Rightarrow> Session \<Rightarrow> world \<Rightarrow> world" where
  "set_session r s w = w\<lparr>heap := (heap w)[r := (heap w ! r)\<lparr>session := s\<rparr>]\<rparr>"

text \<open>\<^verbatim>\<open>resolve\<close> and \<^verbatim>\<open>reject\<close> settle a promise once; later calls do nothing.\<close>

definition resolve :: "nat \<Rightarrow> SessionId \<Rightarrow> world \<Rightarrow> world" where
  "resolve r sessionId w =
     w\<lparr>heap := (heap w)[r := (heap w ! r)\<lparr>promise :=
          (case promise (heap w ! r) of Pending \<Rightarrow> Resolved sessionId | p \<Rightarrow> p)\<rparr>]\<rparr>"

definition reject :: "nat \<Rightarrow> string \<Rightarrow> world \<Rightarrow> world" where
  "reject r reason w =
     w\<lparr>heap := (heap w)[r := (heap w ! r)\<lparr>promise :=
          (case promise (heap w ! r) of Pending \<Rightarrow> Rejected reason | p \<Rightarrow> p)\<rparr>]\<rparr>"

definition getSessionById :: "SessionId \<Rightarrow> int \<Rightarrow> world \<Rightarrow> Session option \<times> world" where
  "getSessionById sid date_now w =
     (case map_of (activeSessions w) sid of
        None \<Rightarrow> (None, w)
      | Some r \<Rightarrow>
          (let s = (session_at r w)\<lparr>lastAccessTime := date_now\<rparr>
           in (Some s, set_session r s w)))"

text \<open>
  What the outside answers during a close. \<^verbatim>\<open>kill()\<close> of a child process asks the
  system to deliver the signal and then does one of four things: it returns
  \<^verbatim>\<open>true\<close> (delivered); it returns \<^verbatim>\<open>false\<close> (no such process, ESRCH); it throws
  (EINVAL, ENOSYS); or, on any other refusal (EPERM), it emits \<^verbatim>\<open>'error'\<close> on the
  process, which runs the process's \<^verbatim>\<open>'error'\<close> listener before \<^verbatim>\<open>kill()\<close> returns
  \<^verbatim>\<open>false\<close>. \<^verbatim>\<open>rmSync\<close> of a path may throw. \<open>stack_frames\<close> bounds how deep the
  calls of \<^verbatim>\<open>closeSession\<close> can nest before the engine throws a RangeError.
  \<^verbatim>\<open>cancelRequests()\<close> is taken to return.
\<close>

datatype kill_outcome = Delivered | AlreadyDead | Refused error | Throws error

record close_env =
  kill_result :: "nat \<Rightarrow> kill_outcome"
  rm_failure :: "string \<Rightarrow> error option"
  stack_frames :: nat

text \<open>
  The end of \<^verbatim>\<open>closeSession\<close>, after the kill: clear the handle of the session
  object, delete the Map entry, and try to remove the temporary directory.
\<close>

definition close_finish :: "close_env \<Rightarrow> nat \<Rightarrow> SessionId \<Rightarrow> world \<Rightarrow> (error + unit) \<times> world" where
  "close_finish env r sessionId w =
     (let s = session_at r w;
          w3 = set_session r (s\<lparr>langServerProcess := None\<rparr>) w;
          w4 = w3\<lparr>activeSessions := AList.delete sessionId (activeSessions w3)\<rparr>
      in (case rmSync (rm_failure env (tempDirPath s)) (tempDirPath s) w4 of
            (Inl e, w5) \<Rightarrow> (Inr (), w5)
          | (Inr u, w5) \<Rightarrow> (Inr (), w5)))"

text \<open>
  \<^verbatim>\<open>closeSession\<close> with \<open>d\<close> frames of stack left, and the \<^verbatim>\<open>'error'\<close> listener that
  \<^verbatim>\<open>startSession\<close> installed on the process of cell \<open>r\<close>. The kill is outside the
  \<^verbatim>\<open>try\<close> and comes before the handle is cleared and the entry deleted: when it
  throws, \<^verbatim>\<open>closeSession\<close> throws there, and when it emits \<^verbatim>\<open>'error'\<close>, the listener
  calls \<^verbatim>\<open>closeSession\<close> again inside the first call. The process of a session is
  the one forked for its cell, which has the listener; an \<^verbatim>\<open>'error'\<close> emitted on an
  object without a listener is thrown.
\<close>

fun closeSession_at :: "close_env \<Rightarrow> nat \<Rightarrow> SessionId \<Rightarrow> world \<Rightarrow> (error + unit) \<times> world"
  and error_listener :: "close_env \<Rightarrow> nat \<Rightarrow> nat \<Rightarrow> world \<Rightarrow> (error + unit) \<times> world" where
  "closeSession_at env 0 sessionId w =
     (Inl (RangeError ''Maximum call stack size exceeded''), w)"
| "closeSession_at env (Suc d) sessionId w =
     (case map_of (activeSessions w) sessionId of
        None \<Rightarrow> (Inr (), w)
      | Some r \<Rightarrow>
          (let s = session_at r w;
               w1 = (case langClient s of
                       Some (LspClient c) \<Rightarrow> emit (CancelRequestsCall c) w
                     | None \<Rightarrow> w)
           in (case langServerProcess s of
                 None \<Rightarrow> close_finish env r sessionId w1
               | Some p \<Rightarrow>
                   (case kill_result env p of
                      Delivered \<Rightarrow> close_finish env r sessionId (emit (KillCall p True) w1)
                    | AlreadyDead \<Rightarrow> close_finish env r sessionId (emit (KillCall p False) w1)
                    | Throws err \<Rightarrow> (Inl err, emit (KillCall p False) w1)
                    | Refused err \<Rightarrow>
                        (if p < length (heap w1)
                         then (case error_listener env d p (emit (KillCall p False) w1) of
                                 (Inl e, w2) \<Rightarrow> (Inl e, w2)
                               | (Inr u, w2) \<Rightarrow> close_finish env r sessionId w2)
                         else (Inl err, emit (KillCall p False) w1))))))"
| "error_listener env d r w =
     (let w1 = (if langServerProcess (session_at r w) = None
                then reject r ''Failed to spawn pyright language server instance'' w
                else w)
      in closeSession_at env d (session_id (session_at r w1)) w1)"

definition closeSession :: "close_env \<Rightarrow> SessionId \<Rightarrow> world \<Rightarrow> (error + unit) \<times> world" where
  "closeSession env sessionId w = closeSession_at env (Suc (stack_frames env)) sessionId w"

text \<open>
  The timer. \<^verbatim>\<open>scheduleSessionLifetimeTimer\<close> arms it unless it is armed;
  \<open>timer_callback\<close> is the function given to \<^verbatim>\<open>setTimeout\<close>. \<^verbatim>\<open>Map.forEach\<close> visits
  the entries in insertion order and skips an entry deleted before its turn.
\<close>

definition scheduleSessionLifetimeTimer :: "world \<Rightarrow> world" where
  "scheduleSessionLifetimeTimer w =
     (if lifetimeTimer w then w else w\<lparr>lifetimeTimer := True\<rparr>)"

fun sweep :: "close_env \<Rightarrow> int \<Rightarrow> (SessionId \<times> nat) list \<Rightarrow> world \<Rightarrow> (error + unit) \<times> world" where
  "sweep env curTime [] w = (Inr (), w)"
| "sweep env curTime ((sessionId, r) # rest) w =
     (if map_of (activeSessions w) sessionId = Some r
         \<and> curTime - lastAccessTime (session_at r w) > maxSessionLifetime
      then (case closeSession env sessionId w of
              (Inl e, w1) \<Rightarrow> (Inl e, w1)
            | (Inr u, w1) \<Rightarrow>
                sweep env curTime rest
                  (w1\<lparr>activeSessions := AList.delete sessionId (activeSessions w1)\<rparr>))
      else sweep env curTime rest w)"

definition timer_callback :: "close_env \<Rightarrow> int \<Rightarrow> world \<Rightarrow> (error + unit) \<times> world" where
  "timer_callback env curTime w =
     (let w1 = w\<lparr>lifetimeTimer := False\<rparr>
      in (case sweep env curTime (activeSessions w1) w1 of
            (Inl e, w2) \<Rightarrow> (Inl e, w2)
          | (Inr u, w2) \<Rightarrow>
              (if length (activeSessions w2) = 0
               then (Inr (), scheduleSessionLifetimeTimer w2)
               else (Inr (), w2))))"

text \<open>
  \<^verbatim>\<open>startSession\<close>, the promise's executor: it runs to its end before the promise
  is returned. A throw inside it rejects the promise (\<open>Inl\<close>); otherwise the
  result is the new cell, whose promise is pending.
\<close>

record start_env =
  mkdtemp :: "error + string"
  write_failure :: "error option"
  uuid :: SessionId
  date_now :: int

definition startSession ::
  "start_env \<Rightarrow> string \<Rightarrow> SessionOptions option \<Rightarrow> world \<Rightarrow> (error + nat) \<times> world" where
  "startSession env binaryDirPath sessionOptions w =
     (case mkdtemp env of
        Inl err \<Rightarrow> (Inl err, w)
      | Inr tempDir \<Rightarrow>
          (case synthesizePyrightConfigFile (write_failure env) tempDir sessionOptions
                  (w\<lparr>dirs := insert tempDir (dirs w)\<rparr>) of
             (Inl err, w1) \<Rightarrow> (Inl err, w1)
           | (Inr u, w1) \<Rightarrow>
               (let w2 = emit (ForkCall binaryDirPath tempDir
                                 (truthy (opt_field locale_s sessionOptions))) w1;
                    r = length (heap w2);
                    sessionId = uuid env;
                    s = \<lparr>session_id = sessionId, lastAccessTime = date_now env,
                         tempDirPath = tempDir, langServerProcess = None, langClient = None\<rparr>;
                    w3 = w2\<lparr>heap := heap w2 @ [\<lparr>session = s, promise = Pending, initialize = NotCalled\<rparr>]\<rparr>;
                    w4 = w3\<lparr>activeSessions := AList.update sessionId r (activeSessions w3)\<rparr>
                in (Inr r, w4))))"

text \<open>The handlers that \<^verbatim>\<open>startSession\<close> installs, for the call with cell \<open>r\<close>.\<close>

definition on_spawn :: "nat \<Rightarrow> world \<Rightarrow> world" where
  "on_spawn r w =
     (let w1 = set_session r ((session_at r w)\<lparr>langServerProcess := Some r\<rparr>) w;
          w2 = set_session r ((session_at r w1)\<lparr>langClient := Some (LspClient r)\<rparr>) w1;
          w3 = emit (InitializeCall r) w2
      in w3\<lparr>heap := (heap w3)[r := (heap w3 ! r)\<lparr>initialize := InitPending\<rparr>]\<rparr>)"

definition on_initialize_then :: "nat \<Rightarrow> world \<Rightarrow> world" where
  "on_initialize_then r w =
     resolve r (session_id (session_at r w))
       (w\<lparr>heap := (heap w)[r := (heap w ! r)\<lparr>initialize := InitSettled\<rparr>]\<rparr>)"

definition on_initialize_catch :: "close_env \<Rightarrow> nat \<Rightarrow> world \<Rightarrow> (error + unit) \<times> world" where
  "on_initialize_catch env r w =
     (let w1 = w\<lparr>heap := (heap w)[r := (heap w ! r)\<lparr>initialize := InitSettled\<rparr>]\<rparr>;
          w2 = reject r ''Failed to start pyright language server connection'' w1
      in closeSession env (session_id (session_at r w2)) w2)"

definition on_error :: "close_env \<Rightarrow> nat \<Rightarrow> world \<Rightarrow> (error + unit) \<times> world" where
  "on_error env r w = error_listener env (Suc (stack_frames env)) r w"

definition on_exit :: "close_env \<Rightarrow> nat \<Rightarrow> world \<Rightarrow> (error + unit) \<times> world" where
  "on_exit env r w = closeSession env (session_id (session_at r w)) w"

definition on_close :: "close_env \<Rightarrow> nat \<Rightarrow> world \<Rightarrow> (error + unit) \<times> world" where
  "on_close env r w = closeSession env (session_id (session_at r w)) w"

definition createNewSession ::
  "install_env \<Rightarrow> start_env \<Rightarrow> SessionOptions option \<Rightarrow> world \<Rightarrow> (error + nat) \<times> world" where
  "createNewSession ienv senv sessionOptions w =
     (let w1 = scheduleSessionLifetimeTimer w
      in (case installPyright ienv (opt_field pyrightVersion sessionOptions) w1 of
            (Inl err, w2) \<Rightarrow> (Inl err, w2)
          | (Inr info, w2) \<Rightarrow> startSession senv (localDirectory info) sessionOptions w2))"

section \<open>Runs of the process\<close>

text \<open>
  What can happen to the process, one event at a time: the exported functions are
  called, the timer fires while armed, and a forked process reports spawn (once),
  the end of its \<^verbatim>\<open>initialize\<close> exchange (once it was called), an error, exit or
  close. An event that cannot happen in the state leaves it as it is; an exception
  that leaves a handler ends the run in the state it was thrown in.
\<close>

datatype event =
    CreateNewSession install_env start_env "SessionOptions option"
  | StartSession start_env string "SessionOptions option"
  | GetSessionById SessionId int
  | CloseSession SessionId
  | TimerFires int
  | Spawn nat
  | InitializeOk nat
  | InitializeFails nat
  | ProcessError nat
  | ProcessExit nat
  | ProcessClose nat

fun step :: "close_env \<Rightarrow> event \<Rightarrow> world \<Rightarrow> (error + unit) \<times> world" where
  "step env (CreateNewSession ienv senv so) w = (Inr (), snd (createNewSession ienv senv so w))"
| "step env (StartSession senv binaryDirPath so) w = (Inr (), snd (startSession senv binaryDirPath so w))"
| "step env (GetSessionById sid t) w = (Inr (), snd (getSessionById sid t w))"
| "step env (CloseSession sid) w = closeSession env sid w"
| "step env (TimerFires t) w = (if lifetimeTimer w then timer_callback env t w else (Inr (), w))"
| "step env (Spawn r) w =
     (if r < length (heap w) \<and> initialize (heap w ! r) = NotCalled
      then (Inr (), on_spawn r w) else (Inr (), w))"
| "step env (InitializeOk r) w =
     (if r < length (heap w) \<and> initialize (heap w ! r) = InitPending
      then (Inr (), on_initialize_then r w) else (Inr (), w))"
| "step env (InitializeFails r) w =
     (if r < length (heap w) \<and> initialize (heap w ! r) = InitPending
      then on_initialize_catch env r w else (Inr (), w))"
| "step env (ProcessError r) w = (if r < length (heap w) then on_error env r w else (Inr (), w))"
| "step env (ProcessExit r) w = (if r < length (heap w) then on_exit env r w else (Inr (), w))"
| "step env (ProcessClose r) w = (if r < length (heap w) then on_close env r w else (Inr (), w))"

fun run :: "close_env \<Rightarrow> event list \<Rightarrow> world \<Rightarrow> (error + unit) \<times> world" where
  "run env [] w = (Inr (), w)"
| "run env (e # es) w =
     (case step env e w of
        (Inl err, w1) \<Rightarrow> (Inl err, w1)
      | (Inr u, w1) \<Rightarrow> run env es w1)"

section \<open>Named inputs\<close>



text \<open>Outcomes of the outside calls of one install: all succeed, or the installer fails.\<close>

definition ok_env :: install_env where
  "ok_env = \<lparr>latest = Inl (Error ''unused''), mkdir_failure = None, install_failure = None\<rparr>"

definition failing_env :: install_env where
  "failing_env = \<lparr>latest = Inl (Error ''unused''), mkdir_failure = None,
      install_failure = Some (Error ''ETIMEDOUT'')\<rparr>"

text \<open>An index whose latest release is a prerelease.\<close>

definition beta_latest :: install_env where
  "beta_latest =
     \<lparr>latest = Inr \<lparr>version = JString ''2.1.0-beta'', versions = Some [''2.0.8'', ''2.1.0-beta'']\<rparr>,
      mkdir_failure = None, install_failure = None\<rparr>"

definition versions21 :: "string list" where
  "versions21 = [''1.0.0'', ''1.0.1'', ''1.0.2'', ''1.0.3'', ''1.0.4'', ''1.0.5'', ''1.0.6'',
     ''1.0.7'', ''1.0.8'', ''1.0.9'', ''1.0.10'', ''1.0.11'', ''1.0.12'', ''1.0.13'', ''1.0.14'',
     ''1.0.15'', ''1.0.16'', ''1.0.17'', ''1.0.18'', ''1.0.19'', ''1.0.20'']"

definition after_install :: world where
  "after_install = snd (installPyright ok_env (Some ''1.0.0'') initial_world)"

definition after_failed_install :: world where
  "after_failed_install = snd (installPyright failing_env (Some ''1.0.0'') initial_world)"

section \<open>Well-formed states\<close>





section \<open>Named states\<close>

text \<open>
  One creation request: a temporary directory, the id \<^verbatim>\<open>session-0\<close>, the clock at
  1000 ms, version 1.0.0 requested. \<open>started0\<close> is the state when \<^verbatim>\<open>startSession\<close>
  has returned its promise; \<open>live0\<close> the state after the request, the spawn
  report and the end of the \<^verbatim>\<open>initialize\<close> exchange. With \<open>ok_close\<close> every kill is
  delivered and every \<^verbatim>\<open>rmSync\<close> succeeds; with \<open>eperm_close\<close> the system refuses
  every kill (EPERM); with \<open>einval_close\<close> every kill throws. Two further frames
  of stack are left below a call of \<^verbatim>\<open>closeSession\<close>.
\<close>

definition senv0 :: start_env where
  "senv0 = \<lparr>mkdtemp = Inr ''/tmp/pyright_playgroundAbC123'', write_failure = None,
             uuid = ''session-0'', date_now = 1000\<rparr>"

definition opts0 :: "SessionOptions option" where
  "opts0 = Some \<lparr>pythonVersion = None, pythonPlatform = None, pyrightVersion = Some ''1.0.0'',
                 typeCheckingMode = None, configOverrides = None, locale_s = None\<rparr>"

definition ok_close :: close_env where
  "ok_close = \<lparr>kill_result = (\<lambda>p. Delivered), rm_failure = (\<lambda>p. None), stack_frames = 2\<rparr>"

definition eperm_close :: close_env where
  "eperm_close = \<lparr>kill_result = (\<lambda>p. Refused (Error ''kill EPERM'')),
                   rm_failure = (\<lambda>p. None), stack_frames = 2\<rparr>"

definition einval_close :: close_env where
  "einval_close = \<lparr>kill_result = (\<lambda>p. Throws (Error ''kill EINVAL'')),
                    rm_failure = (\<lambda>p. None), stack_frames = 2\<rparr>"


definition live0 :: world where
  "live0 = snd (run ok_close [CreateNewSession ok_env senv0 opts0, Spawn 0, InitializeOk 0] initial_world)"


section \<open>The client's version listing\<close>

lemma filter_hyphen_all:
  "(\<forall>v\<in>set ks. includes_hyphen v) \<Longrightarrow> filter (\<lambda>v. \<not> includes_hyphen v) ks = []"
  by (induction ks) auto

lemma filter_hyphen_some:
  "\<not> (\<forall>v\<in>set ks. includes_hyphen v) \<Longrightarrow> filter (\<lambda>v. \<not> includes_hyphen v) ks \<noteq> []"
  by (induction ks) auto

text \<open>
  Claim C10. In both copies of the client's version listing the prerelease filter
  takes effect only when some version string has no hyphen. When every version
  string of the response has a hyphen, the listing is the response's versions,
  newest (last key) first, and it is not empty unless the response is; the copy in
  \<^verbatim>\<open>src/client/sessionManager.ts\<close> then keeps the first 50 of them.
\<close>

theorem client_listing_prerelease_fallback:
  "getPyrightVersions_client_unsliced (Inr \<lparr>version = lv, versions = Some ks\<rparr>) =
     Inr (rev (if \<forall>v\<in>set ks. includes_hyphen v then ks
               else filter (\<lambda>v. \<not> includes_hyphen v) ks))
   \<and> getPyrightVersions_client (Inr \<lparr>version = lv, versions = Some ks\<rparr>) =
     Inr (take maxPyrightVersionCount
            (rev (if \<forall>v\<in>set ks. includes_hyphen v then ks
                  else filter (\<lambda>v. \<not> includes_hyphen v) ks)))
   \<and> ((\<forall>v\<in>set ks. includes_hyphen v) \<and> ks \<noteq> [] \<longrightarrow>
        getPyrightVersions_client_unsliced (Inr \<lparr>version = lv, versions = Some ks\<rparr>) \<noteq> Inr []
      \<and> getPyrightVersions_client (Inr \<lparr>version = lv, versions = Some ks\<rparr>) \<noteq> Inr [])"
proof (cases "\<forall>v\<in>set ks. includes_hyphen v")
  case True
  then show ?thesis
    by (simp add: getPyrightVersions_client_unsliced_def getPyrightVersions_client_def
        catch_rethrow_def object_keys_def filter_hyphen_all maxPyrightVersionCount_def)
next
  case False
  then show ?thesis
    using filter_hyphen_some [OF False]
    by (auto simp: getPyrightVersions_client_unsliced_def getPyrightVersions_client_def
        catch_rethrow_def object_keys_def Let_def)
qed

theorem client_listing_prerelease_fallback_witness:
  "includes_hyphen ''1.0.0-a'' \<and> includes_hyphen ''1.0.1-b''
   \<and> getPyrightVersions_client
        (Inr \<lparr>version = JUndefined, versions = Some [''1.0.0-a'', ''1.0.1-b'']\<rparr>)
       = Inr [''1.0.1-b'', ''1.0.0-a'']
   \<and> getPyrightVersions_client_unsliced
        (Inr \<lparr>version = JUndefined, versions = Some [''1.0.0-a'', ''1.0.1-b'']\<rparr>)
       = Inr [''1.0.1-b'', ''1.0.0-a'']"
  using client_listing_prerelease_fallback [of JUndefined "[''1.0.0-a'', ''1.0.1-b'']"]
  by (simp add: includes_hyphen_def maxPyrightVersionCount_def)

section \<open>The synthesized configuration\<close>








section \<open>Installing versions\<close>

lemma ancestors_parent:
  "acc @ p \<noteq> [] \<Longrightarrow> acc @ p \<in> set (ancestors acc (p @ CHR ''/'' # q))"
proof (induction p arbitrary: acc)
  case Nil
  then show ?case by simp
next
  case (Cons c p)
  from Cons.IH [of "acc @ [c]"] show ?case by auto
qed

lemma dirName_in_ancestors:
  "dirName_of v \<in> set (ancestors [] (path_join (dirName_of v) ''node_modules''))"
  using ancestors_parent [of "[]" "dirName_of v" "''node_modules''"]
  by (simp add: path_join_def dirName_of_def)

lemma installPyright_dirs_mono: "dirs w \<subseteq> dirs (snd (installPyright env req w))"
  by (auto simp: installPyright_def Let_def emit_def mkdir_recursive_def manager_install_def
      split: option.splits sum.splits prod.splits if_splits)

lemma installPyright_files: "files (snd (installPyright env req w)) = files w"
  by (auto simp: installPyright_def Let_def emit_def mkdir_recursive_def manager_install_def
      split: option.splits sum.splits prod.splits if_splits)

lemma installPyright_keeps:
  "existsSync p w \<Longrightarrow> existsSync p (snd (installPyright env req w))"
  using installPyright_dirs_mono [of w env req] installPyright_files [of env req w]
  by (auto simp: existsSync_def)

lemma installPyright_installs:
  "mkdir_failure env = None \<Longrightarrow> v \<noteq> [] \<Longrightarrow>
   existsSync (dirName_of v) (snd (installPyright env (Some v) w))"
  using dirName_in_ancestors [of v]
  by (auto simp: installPyright_def Let_def emit_def mkdir_recursive_def manager_install_def
      existsSync_def split: option.splits sum.splits prod.splits if_splits)

lemma install_all_keeps: "existsSync p w \<Longrightarrow> existsSync p (install_all jobs w)"
  by (induction jobs arbitrary: w) (auto simp: installPyright_keeps)

lemma install_all_installs:
  "list_all (\<lambda>v. v \<noteq> []) vs \<Longrightarrow> mkdir_failure env = None \<Longrightarrow>
   list_all (\<lambda>v. existsSync (dirName_of v) (install_all (map (\<lambda>v. (env, Some v)) vs) w)) vs"
proof (induction vs arbitrary: w)
  case Nil
  then show ?case by simp
next
  case (Cons v vs)
  then show ?case
    by (simp add: install_all_keeps installPyright_installs)
qed

lemma cache_hit:
  "v \<noteq> [] \<Longrightarrow> existsSync (dirName_of v) w \<Longrightarrow>
   installPyright env (Some v) w =
     (Inr \<lparr>pyrightVersion_i = v, localDirectory = dirName_of v\<rparr>, w)"
  by (simp add: installPyright_def Let_def)

text \<open>
  Claim C2, at the input where the code departs from it. After 21 successful
  installs of 21 distinct versions into an empty store, with nothing pinned, the
  directories of all 21 versions exist: \<^verbatim>\<open>installPyright\<close> has no eviction pass, so
  more than 20 versions are in the store at rest and none was removed. The
  server's README says that only the 20 most recently used versions are retained.
\<close>

theorem no_eviction_after_21_installs:
  "length versions21 = 21 \<and> distinct versions21
   \<and> list_all (\<lambda>v. existsSync (dirName_of v)
        (install_all (map (\<lambda>v. (ok_env, Some v)) versions21) initial_world)) versions21
   \<and> distinct (map dirName_of versions21)"
proof -
  have "list_all (\<lambda>v. v \<noteq> []) versions21" by (simp add: versions21_def)
  from install_all_installs [OF this, of ok_env initial_world]
  have "list_all (\<lambda>v. existsSync (dirName_of v)
        (install_all (map (\<lambda>v. (ok_env, Some v)) versions21) initial_world)) versions21"
    by (simp add: ok_env_def)
  moreover have "length versions21 = 21" "distinct versions21" by (simp_all add: versions21_def)
  moreover have "distinct (map dirName_of versions21)"
    by (simp add: versions21_def dirName_of_def)
  ultimately show ?thesis by simp
qed

lemma after_failed_install_eq:
  "installPyright failing_env (Some ''1.0.0'') initial_world =
     (Inl (Str ''Failed to install pyright@1.0.0''),
      \<lparr>activeSessions = [], lifetimeTimer = False, heap = [],
       dirs = {''.'', ''./pyright_local'', ''./pyright_local/1.0.0'',
               ''./pyright_local/1.0.0/node_modules''},
       files = Map.empty,
       trace = [MkdirCall ''./pyright_local/1.0.0/node_modules'',
                InstallCall ''./pyright_local/1.0.0/node_modules'' ''basedpyright'' ''1.0.0'']\<rparr>)"
  by (simp add: installPyright_def Let_def failing_env_def initial_world_def dirName_of_def
      existsSync_def mkdir_recursive_def manager_install_def path_join_def emit_def insert_commute)

text \<open>
  Claim C4, at the input where the code departs from it. The installer fails for
  version 1.0.0 in an empty store: the call fails with the named failure, but the
  directory made before the install is still there (without the package), and the
  next request for 1.0.0 takes the cache-hit path: it returns that directory and
  calls neither \<^verbatim>\<open>mkdir\<close> nor the installer.
\<close>

theorem failed_install_poisons_cache:
  "fst (installPyright failing_env (Some ''1.0.0'') initial_world)
     = Inl (Str ''Failed to install pyright@1.0.0'')
   \<and> existsSync ''./pyright_local/1.0.0'' after_failed_install
   \<and> \<not> existsSync ''./pyright_local/1.0.0/node_modules/basedpyright'' after_failed_install
   \<and> installPyright ok_env (Some ''1.0.0'') after_failed_install
     = (Inr \<lparr>pyrightVersion_i = ''1.0.0'', localDirectory = ''./pyright_local/1.0.0''\<rparr>,
        after_failed_install)"
  unfolding after_failed_install_def after_failed_install_eq
  by (simp add: installPyright_def Let_def dirName_of_def existsSync_def ok_env_def)

text \<open>
  Claim C5, at the input where the code departs from it. Version 1.0.0 is in the
  store and is requested again: the installer is not called (the calls made are
  those made before), and the state after the request is the state before it, so
  no time of use is recorded for the version, on disk or in memory. The server's
  README says that usage information is persisted.
\<close>

theorem cache_hit_records_no_use:
  "existsSync (dirName_of ''1.0.0'') after_install
   \<and> installPyright ok_env (Some ''1.0.0'') after_install
     = (Inr \<lparr>pyrightVersion_i = ''1.0.0'', localDirectory = ''./pyright_local/1.0.0''\<rparr>,
        after_install)
   \<and> trace (snd (installPyright ok_env (Some ''1.0.0'') after_install)) = trace after_install
   \<and> dirs (snd (installPyright ok_env (Some ''1.0.0'') after_install)) = dirs after_install
   \<and> files (snd (installPyright ok_env (Some ''1.0.0'') after_install)) = files after_install"
proof -
  have e: "existsSync (dirName_of ''1.0.0'') after_install"
    unfolding after_install_def
    by (rule installPyright_installs) (simp_all add: ok_env_def)
  from cache_hit [OF _ e, of ok_env] show ?thesis
    using e by (simp add: dirName_of_def)
qed

section \<open>Resolving the version of a creation request\<close>

text \<open>
  Claim C7 as stated fails: with no requested version the resolver does not filter
  or order a list of versions. Here the index names the prerelease 2.1.0-beta as
  its latest version, and the request installs 2.1.0-beta, while the listing with
  the hyphen filter holds 2.0.8 only.
\<close>

theorem resolver_prerelease_counterexample:
  "fst (installPyright beta_latest None initial_world)
     = Inr \<lparr>pyrightVersion_i = ''2.1.0-beta'', localDirectory = ''./pyright_local/2.1.0-beta''\<rparr>
   \<and> includes_hyphen ''2.1.0-beta''
   \<and> getPyrightVersions (latest beta_latest) = Inr [''2.0.8'']"
  by (simp add: installPyright_def Let_def beta_latest_def getPyrightLatestVersion_def
      catch_rethrow_def dirName_of_def existsSync_def initial_world_def emit_def
      mkdir_recursive_def manager_install_def includes_hyphen_def getPyrightVersions_def
      object_keys_def maxPyrightVersionCount_def)

text \<open>
  Claim C7, amended. With no requested version (none, or the empty string) the
  resolver takes the \<^verbatim>\<open>version\<close> field of the index's answer as it is, hyphen or
  not: the request ends with that version and its directory, or with the failure
  of installing that version. When the index call fails or the field is not a
  string, the request fails with the named failure "Failed to get latest version
  of pyright: ..." and nothing else happens: no other version is tried and nothing
  is created.
\<close>

theorem resolver_takes_latest_field:
  "truthy req = None \<Longrightarrow>
   (\<forall>resp v. latest env = Inr resp \<and> version resp = JString v \<longrightarrow>
      fst (installPyright env req w)
        = Inr \<lparr>pyrightVersion_i = v, localDirectory = ''./pyright_local/'' @ v\<rparr>
      \<or> fst (installPyright env req w) = Inl (Str (''Failed to install pyright@'' @ v)))
   \<and> ((\<forall>resp v. latest env = Inr resp \<longrightarrow> version resp \<noteq> JString v) \<longrightarrow>
      (\<exists>msg. installPyright env req w =
         (Inl (Error (''Failed to get latest version of pyright: '' @ msg)),
          emit PackageJsonCall w)))"
  by (auto simp: installPyright_def getPyrightLatestVersion_def catch_rethrow_def Let_def
      dirName_of_def mkdir_recursive_def manager_install_def
      split: sum.splits js_value.splits option.splits)

theorem resolver_takes_latest_field_witness:
  "truthy None = None
   \<and> latest beta_latest
       = Inr \<lparr>version = JString ''2.1.0-beta'', versions = Some [''2.0.8'', ''2.1.0-beta'']\<rparr>
   \<and> fst (installPyright beta_latest None initial_world)
       = Inr \<lparr>pyrightVersion_i = ''2.1.0-beta'', localDirectory = ''./pyright_local/2.1.0-beta''\<rparr>
   \<and> (\<exists>msg. installPyright ok_env (Some []) initial_world =
         (Inl (Error (''Failed to get latest version of pyright: '' @ msg)),
          emit PackageJsonCall initial_world))"
proof -
  have a: "truthy None = None" "truthy (Some []) = None" by simp_all
  have b: "\<forall>resp v. latest ok_env = Inr resp \<longrightarrow> version resp \<noteq> JString v"
    by (simp add: ok_env_def)
  have c: "fst (installPyright beta_latest None initial_world)
             \<noteq> Inl (Str (''Failed to install pyright@'' @ ''2.1.0-beta''))"
    by (simp add: installPyright_def Let_def beta_latest_def getPyrightLatestVersion_def
        catch_rethrow_def dirName_of_def existsSync_def initial_world_def emit_def
        mkdir_recursive_def manager_install_def)
  from resolver_takes_latest_field [OF a(1), of beta_latest initial_world]
    resolver_takes_latest_field [OF a(2), of ok_env initial_world] b c
  show ?thesis by (simp add: beta_latest_def)
qed

section \<open>The invariant of the session manager\<close>






lemma rmSync_frame:
  "activeSessions (snd (rmSync f p w)) = activeSessions w"
  "heap (snd (rmSync f p w)) = heap w"
  "lifetimeTimer (snd (rmSync f p w)) = lifetimeTimer w"
  by (simp_all add: rmSync_def emit_def split: option.splits)

























lemma close_finish_fst: "fst (close_finish env r sid w) = Inr ()"
  by (simp add: close_finish_def Let_def case_prod_beta split: sum.splits)

lemma close_finish_registry:
  "activeSessions (snd (close_finish env r sid w)) = AList.delete sid (activeSessions w)"
  by (simp add: close_finish_def Let_def case_prod_beta set_session_def rmSync_frame
      split: sum.splits)


lemma close_finish_timer:
  "lifetimeTimer (snd (close_finish env r sid w)) = lifetimeTimer w"
  by (simp add: close_finish_def Let_def case_prod_beta set_session_def rmSync_frame
      split: sum.splits)





















lemma live0_eval:
  "activeSessions live0 = [(''session-0'', 0)]"
  "lifetimeTimer live0 = True"
  "heap live0 = [\<lparr>session = \<lparr>session_id = ''session-0'', lastAccessTime = 1000,
       tempDirPath = ''/tmp/pyright_playgroundAbC123'', langServerProcess = Some 0,
       langClient = Some (LspClient 0)\<rparr>, promise = Resolved ''session-0'', initialize = InitSettled\<rparr>]"
  by (simp_all add: live0_def createNewSession_def scheduleSessionLifetimeTimer_def
      installPyright_def Let_def initial_world_def opts0_def opt_field_def ok_env_def senv0_def
      dirName_of_def existsSync_def mkdir_recursive_def manager_install_def path_join_def emit_def
      startSession_def synthesizePyrightConfigFile_def writeFileSync_def on_spawn_def
      set_session_def session_at_def on_initialize_then_def resolve_def)

section \<open>Sessions and the registry\<close>




lemma closeSession_unfold:
  "closeSession env sessionId w =
     (case map_of (activeSessions w) sessionId of
        None \<Rightarrow> (Inr (), w)
      | Some r \<Rightarrow>
          (let s = session_at r w;
               w1 = (case langClient s of
                       Some (LspClient c) \<Rightarrow> emit (CancelRequestsCall c) w
                     | None \<Rightarrow> w)
           in (case langServerProcess s of
                 None \<Rightarrow> close_finish env r sessionId w1
               | Some p \<Rightarrow>
                   (case kill_result env p of
                      Delivered \<Rightarrow> close_finish env r sessionId (emit (KillCall p True) w1)
                    | AlreadyDead \<Rightarrow> close_finish env r sessionId (emit (KillCall p False) w1)
                    | Throws err \<Rightarrow> (Inl err, emit (KillCall p False) w1)
                    | Refused err \<Rightarrow>
                        (if p < length (heap w1)
                         then (case error_listener env (stack_frames env) p
                                      (emit (KillCall p False) w1) of
                                 (Inl e, w2) \<Rightarrow> (Inl e, w2)
                               | (Inr u, w2) \<Rightarrow> close_finish env r sessionId w2)
                         else (Inl err, emit (KillCall p False) w1))))))"
  unfolding closeSession_def closeSession_at.simps ..





section \<open>The idle timer\<close>

lemma closeSession_at_timer:
  "lifetimeTimer (snd (closeSession_at env d sid w)) = lifetimeTimer w"
proof (induction d arbitrary: sid w)
  case 0
  then show ?case by simp
next
  case (Suc d)
  have l: "lifetimeTimer (snd (error_listener env d p v)) = lifetimeTimer v" for p v
    by (simp add: Suc.IH reject_def Let_def)
  have f: "lifetimeTimer (snd (case error_listener env d p v of
             (Inl e, w2) \<Rightarrow> (Inl e, w2)
           | (Inr u, w2) \<Rightarrow> close_finish env r sid w2)) = lifetimeTimer v" for p v r
    using l [of p v]
    by (cases "error_listener env d p v"; cases "fst (error_listener env d p v)")
      (simp_all add: close_finish_timer del: error_listener.simps)
  show ?case
    by (simp add: Let_def close_finish_timer emit_def f
        split: option.splits LspClient.splits kill_outcome.splits del: error_listener.simps)
qed

lemma sweep_timer: "lifetimeTimer (snd (sweep env t l w)) = lifetimeTimer w"
proof (induction l arbitrary: w)
  case Nil
  then show ?case by simp
next
  case (Cons p l)
  obtain sid r where p: "p = (sid, r)" by (cases p)
  obtain res w1 where c: "closeSession env sid w = (res, w1)"
    by (cases "closeSession env sid w")
  have "lifetimeTimer w1 = lifetimeTimer w"
    using closeSession_at_timer [of env "Suc (stack_frames env)" sid w]
    by (simp add: c closeSession_def [symmetric] del: closeSession_at.simps)
  then show ?case by (cases res) (simp_all add: p c Cons.IH)
qed

lemma timer_armed_iff_registry_empty:
  assumes "fst (timer_callback env t w) = Inr ()"
  shows "lifetimeTimer (snd (timer_callback env t w)) =
           (activeSessions (snd (timer_callback env t w)) = [])"
proof -
  let ?w1 = "w\<lparr>lifetimeTimer := False\<rparr>"
  obtain res w2 where s: "sweep env t (activeSessions w) ?w1 = (res, w2)"
    by (cases "sweep env t (activeSessions w) ?w1")
  have "\<not> lifetimeTimer w2"
    using sweep_timer [of env t "activeSessions w" ?w1] by (simp add: s)
  then show ?thesis
    using assms
    by (cases res) (simp_all add: timer_callback_def Let_def s scheduleSessionLifetimeTimer_def)
qed

lemma run_append:
  "run env (es @ es') w =
     (case run env es w of (Inl e, w1) \<Rightarrow> (Inl e, w1) | (Inr u, w1) \<Rightarrow> run env es' w1)"
  by (induction es arbitrary: w) (auto split: prod.splits sum.splits)

lemma run_live0:
  "run ok_close [CreateNewSession ok_env senv0 opts0, Spawn 0, InitializeOk 0] initial_world
     = (Inr (), live0)"
proof -
  have "fst (run ok_close [CreateNewSession ok_env senv0 opts0, Spawn 0, InitializeOk 0]
               initial_world) = Inr ()"
    by (simp split: prod.splits)
  then show ?thesis
    unfolding live0_def
    by (cases "run ok_close [CreateNewSession ok_env senv0 opts0, Spawn 0, InitializeOk 0]
                 initial_world") simp
qed

lemma closeSession_ok_live0:
  "closeSession ok_close ''session-0'' live0 =
     close_finish ok_close 0 ''session-0''
       (emit (KillCall 0 True) (emit (CancelRequestsCall 0) live0))"
  by (simp add: closeSession_unfold live0_eval session_at_def ok_close_def Let_def)

text \<open>
  Claim C3, at the inputs where the code departs from it. A session is created
  at 1000 ms and the timer fires at 61000 ms: the session is not idle for more
  than a minute, stays registered, and no timer is armed afterwards. When the
  session was closed before the timer fires, the registry is empty after the
  sweep and the timer is armed again. (In every state, a callback that returns
  leaves the timer armed exactly when the registry is empty,
  \<open>timer_armed_iff_registry_empty\<close>.)
\<close>

theorem idle_timer_rescheduled_only_when_empty:
  "activeSessions (snd (run ok_close
       [CreateNewSession ok_env senv0 opts0, Spawn 0, InitializeOk 0, TimerFires 61000]
       initial_world)) = [(''session-0'', 0)]
   \<and> \<not> lifetimeTimer (snd (run ok_close
       [CreateNewSession ok_env senv0 opts0, Spawn 0, InitializeOk 0, TimerFires 61000]
       initial_world))
   \<and> activeSessions (snd (run ok_close
       [CreateNewSession ok_env senv0 opts0, Spawn 0, InitializeOk 0, CloseSession ''session-0'',
        TimerFires 61000] initial_world)) = []
   \<and> lifetimeTimer (snd (run ok_close
       [CreateNewSession ok_env senv0 opts0, Spawn 0, InitializeOk 0, CloseSession ''session-0'',
        TimerFires 61000] initial_world))"
proof -
  have a: "run ok_close [CreateNewSession ok_env senv0 opts0, Spawn 0, InitializeOk 0,
             TimerFires 61000] initial_world
        = run ok_close [TimerFires 61000] live0"
    using run_append [of ok_close "[CreateNewSession ok_env senv0 opts0, Spawn 0, InitializeOk 0]"
        "[TimerFires 61000]" initial_world]
    by (simp only: run_live0 append.simps prod.case sum.case)
  have b: "run ok_close [CreateNewSession ok_env senv0 opts0, Spawn 0, InitializeOk 0,
             CloseSession ''session-0'', TimerFires 61000] initial_world
        = run ok_close [CloseSession ''session-0'', TimerFires 61000] live0"
    using run_append [of ok_close "[CreateNewSession ok_env senv0 opts0, Spawn 0, InitializeOk 0]"
        "[CloseSession ''session-0'', TimerFires 61000]" initial_world]
    by (simp only: run_live0 append.simps prod.case sum.case)
  have 1: "snd (run ok_close [TimerFires 61000] live0) = live0\<lparr>lifetimeTimer := False\<rparr>"
    by (simp add: live0_eval timer_callback_def Let_def session_at_def maxSessionLifetime_def)
  obtain w1 where c: "closeSession ok_close ''session-0'' live0 = (Inr (), w1)"
    using close_finish_fst [of ok_close 0 "''session-0''"
        "emit (KillCall 0 True) (emit (CancelRequestsCall 0) live0)"]
    unfolding closeSession_ok_live0 [symmetric]
    by (cases "closeSession ok_close ''session-0'' live0") auto
  have w1: "activeSessions w1 = []" "lifetimeTimer w1"
    using close_finish_registry [of ok_close 0 "''session-0''"
        "emit (KillCall 0 True) (emit (CancelRequestsCall 0) live0)"]
      close_finish_timer [of ok_close 0 "''session-0''"
        "emit (KillCall 0 True) (emit (CancelRequestsCall 0) live0)"]
    unfolding closeSession_ok_live0 [symmetric]
    by (simp_all add: c emit_def live0_eval)
  have 2: "activeSessions (snd (run ok_close [CloseSession ''session-0'', TimerFires 61000] live0)) = []
         \<and> lifetimeTimer (snd (run ok_close [CloseSession ''session-0'', TimerFires 61000] live0))"
    by (simp add: c w1 timer_callback_def Let_def scheduleSessionLifetimeTimer_def)
  show ?thesis
    unfolding a b using 1 2 by (simp add: live0_eval)
qed

section \<open>Closing a session\<close>

lemma closeSession_benign:
  assumes "\<And>p. kill_result env p = Delivered \<or> kill_result env p = AlreadyDead"
  shows "fst (closeSession env sid w) = Inr ()
         \<and> map_of (activeSessions (snd (closeSession env sid w))) sid = None
         \<and> closeSession env' sid (snd (closeSession env sid w))
             = (Inr (), snd (closeSession env sid w))"
proof -
  have k: "kill_result env p \<noteq> Refused e" "kill_result env p \<noteq> Throws e" for p e
    using assms [of p] by auto
  have 1: "fst (closeSession env sid w) = Inr ()"
    by (simp add: closeSession_unfold Let_def close_finish_fst k
        split: option.splits LspClient.splits kill_outcome.splits)
  have "activeSessions (snd (closeSession env sid w)) = AList.delete sid (activeSessions w)"
    by (simp add: closeSession_unfold Let_def close_finish_registry emit_def map_of_eq_None_iff k
        split: option.splits LspClient.splits kill_outcome.splits)
  then have 2: "map_of (activeSessions (snd (closeSession env sid w))) sid = None"
    by (simp add: delete_conv')
  then have "closeSession env' sid (snd (closeSession env sid w))
             = (Inr (), snd (closeSession env sid w))"
    by (simp add: closeSession_unfold)
  with 1 2 show ?thesis by simp
qed

lemma closeSession_eperm_live0:
  "closeSession eperm_close ''session-0'' live0 =
     (Inl (RangeError ''Maximum call stack size exceeded''),
      live0\<lparr>trace := trace live0 @
         [CancelRequestsCall 0, KillCall 0 False, CancelRequestsCall 0, KillCall 0 False,
          CancelRequestsCall 0, KillCall 0 False]\<rparr>)"
  by (simp add: closeSession_unfold live0_eval session_at_def eperm_close_def Let_def emit_def
      numeral_2_eq_2)

lemma closeSession_einval_live0:
  "closeSession einval_close ''session-0'' live0 =
     (Inl (Error ''kill EINVAL''),
      live0\<lparr>trace := trace live0 @ [CancelRequestsCall 0, KillCall 0 False]\<rparr>)"
  by (simp add: closeSession_unfold live0_eval session_at_def einval_close_def Let_def emit_def)

text \<open>
  Claim C6, at the inputs where the code departs from it. The session of \<open>live0\<close>
  is closed and the system refuses the kill (EPERM): \<^verbatim>\<open>kill()\<close> emits \<^verbatim>\<open>'error'\<close>, the
  listener closes the same, still registered session again, and so on until the
  stack is exhausted: the close raises a RangeError to its caller, after
  cancelling the requests and trying the kill once per nested call. When
  \<^verbatim>\<open>kill()\<close> throws, the close raises that error. (A failing \<^verbatim>\<open>rmSync\<close> is swallowed,
  and with the kill delivered or the process gone the close returns and a second
  close changes nothing, \<open>closeSession_benign\<close>.)
\<close>

theorem close_raises_when_kill_fails:
  "fst (closeSession eperm_close ''session-0'' live0)
     = Inl (RangeError ''Maximum call stack size exceeded'')
   \<and> trace (snd (closeSession eperm_close ''session-0'' live0))
     = trace live0 @
         [CancelRequestsCall 0, KillCall 0 False, CancelRequestsCall 0, KillCall 0 False,
          CancelRequestsCall 0, KillCall 0 False]
   \<and> fst (closeSession einval_close ''session-0'' live0) = Inl (Error ''kill EINVAL'')"
  by (simp add: closeSession_eperm_live0 closeSession_einval_live0)

text \<open>
  Claim C9, at the inputs where the code departs from it. The session of \<open>live0\<close>
  is registered with its process handle set. When the system refuses the kill
  (EPERM), or \<^verbatim>\<open>kill()\<close> throws, the close ends at the kill, before the handle is
  cleared and the entry deleted: afterwards the id is still registered, a lookup
  still returns the session, and its process handle is still set.
\<close>

theorem close_keeps_session_registered_when_kill_fails:
  "map_of (activeSessions live0) ''session-0'' = Some 0
   \<and> map_of (activeSessions (snd (closeSession eperm_close ''session-0'' live0))) ''session-0''
       = Some 0
   \<and> langServerProcess (session_at 0 (snd (closeSession eperm_close ''session-0'' live0)))
       = Some 0
   \<and> map_of (activeSessions (snd (closeSession einval_close ''session-0'' live0))) ''session-0''
       = Some 0
   \<and> langServerProcess (session_at 0 (snd (closeSession einval_close ''session-0'' live0)))
       = Some 0
   \<and> fst (getSessionById ''session-0'' 5000
            (snd (closeSession eperm_close ''session-0'' live0)))
       = Some \<lparr>session_id = ''session-0'', lastAccessTime = 5000,
               tempDirPath = ''/tmp/pyright_playgroundAbC123'',
               langServerProcess = Some 0, langClient = Some (LspClient 0)\<rparr>"
  by (simp add: closeSession_eperm_live0 closeSession_einval_live0 live0_eval session_at_def
      getSessionById_def Let_def)


end
